theory Spec2Isabelle
  imports Complex_Main "HOL-Library.Sublist" "HOL-Library.Log_Nat"
begin

section \<open>Strings\<close>

text \<open>
  A Python \<open>str\<close> is a list of characters; the model covers the characters with code
  points below 256, one \<open>char\<close> each, so \<open>length\<close> is Python's \<open>len\<close>. Among them
  \<open>str.isspace\<close> and \<open>str.strip\<close> treat as whitespace the code points 9 to 13, 28 to 32,
  133 and 160, and \<open>str.lower\<close> moves \<open>A\<close> to \<open>Z\<close> and the capital letters 192 to 222
  (but not the multiplication sign, 215) up by 32.
\<close>

definition whitespace :: "char \<Rightarrow> bool" where
  "whitespace c =
     (let n = (of_char c :: nat)
      in (9 \<le> n \<and> n \<le> 13) \<or> (28 \<le> n \<and> n \<le> 32) \<or> n = 133 \<or> n = 160)"

definition isspace :: "string \<Rightarrow> bool" where
  "isspace v = (v \<noteq> [] \<and> list_all whitespace v)"

definition strip :: "string \<Rightarrow> string" where
  "strip v = rev (dropWhile whitespace (rev (dropWhile whitespace v)))"

definition lower_char :: "char \<Rightarrow> char" where
  "lower_char c =
     (let n = (of_char c :: nat)
      in if (65 \<le> n \<and> n \<le> 90) \<or> (192 \<le> n \<and> n \<le> 222 \<and> n \<noteq> 215)
         then char_of (n + 32) else c)"

definition lower :: "string \<Rightarrow> string" where
  "lower v = map lower_char v"

text \<open>\<open>sub in v\<close> on strings: \<open>sub\<close> occurs in \<open>v\<close> as a contiguous run.\<close>

fun contains :: "string \<Rightarrow> string \<Rightarrow> bool" where
  "contains sub [] = (sub = [])"
| "contains sub (c # cs) = (prefix sub (c # cs) \<or> contains sub cs)"

text \<open>
  The store's \<open>LIKE\<close>: in the pattern \<open>%\<close> stands for any run of characters, \<open>_\<close> for
  any one character, and a backslash takes the next character literally. \<open>ILIKE\<close>
  compares without regard to case.
\<close>

fun like :: "string \<Rightarrow> string \<Rightarrow> bool" where
  "like [] [] = True"
| "like (c # cs) [] = False"
| "like [] (p # ps) = (p = CHR ''%'' \<and> like [] ps)"
| "like (c # cs) (p # ps) =
     (if p = CHR ''%'' then like (c # cs) ps \<or> like cs (p # ps)
      else if p = CHR 0x5C then (case ps of [] \<Rightarrow> False | q # qs \<Rightarrow> c = q \<and> like cs qs)
      else (p = CHR ''_'' \<or> c = p) \<and> like cs ps)"

definition ilike :: "string \<Rightarrow> string \<Rightarrow> bool" where
  "ilike v pattern = like (lower v) (lower pattern)"

section \<open>app/models/schemas.py\<close>

text \<open>
  A pydantic model checks each field against its \<open>Field\<close> constraints first
  (\<open>min_length\<close>, \<open>max_length\<close>, on the string as it arrived) and runs the field's
  validator on what passed. A field that fails contributes its error; the model is built
  when no field failed.
\<close>

datatype validation_error =
  Missing
  | String_too_short
  | String_too_long
  | Greater_than_equal
  | Less_than_equal
  | ValueError string

text \<open>\<open>TodoCreate.validate_title\<close> and \<open>TodoPut.validate_title\<close>, which are the same code.\<close>

definition validate_title :: "string \<Rightarrow> validation_error + string" where
  "validate_title v =
     (if v = [] \<or> isspace v
      then Inl (ValueError ''Title cannot be empty or just whitespace'')
      else let v' = strip v
           in if CHR ''<'' \<in> set v' \<or> CHR ''>'' \<in> set v'
              then Inl (ValueError ''Title cannot contain HTML tags'')
              else Inr v')"

text \<open>\<open>TodoPatch.validate_title\<close>: the same checks when the title is not None.\<close>

definition validate_title_patch :: "string option \<Rightarrow> validation_error + string option" where
  "validate_title_patch v =
     (case v of
        None \<Rightarrow> Inr None
      | Some t \<Rightarrow>
          if t = [] \<or> isspace t
          then Inl (ValueError ''Title cannot be empty or just whitespace'')
          else let t' = strip t
               in if CHR ''<'' \<in> set t' \<or> CHR ''>'' \<in> set t'
                  then Inl (ValueError ''Title cannot contain HTML tags'')
                  else Inr (Some t'))"

text \<open>\<open>validate_description\<close>, the same code in \<open>TodoCreate\<close>, \<open>TodoPatch\<close> and \<open>TodoPut\<close>.\<close>

definition validate_description :: "string option \<Rightarrow> validation_error + string option" where
  "validate_description v =
     (case v of
        None \<Rightarrow> Inr None
      | Some d \<Rightarrow>
          let d' = strip d
          in if d' = [] then Inr None
             else if contains ''<script'' (lower d') \<or> contains ''</script>'' (lower d')
             then Inl (ValueError ''Description cannot contain script tags'')
             else Inr (Some d'))"

text \<open>\<open>Field(..., min_length=1, max_length=200)\<close>, a required string.\<close>

definition title_field :: "string option \<Rightarrow> validation_error + string" where
  "title_field v =
     (case v of
        None \<Rightarrow> Inl Missing
      | Some t \<Rightarrow>
          if length t < 1 then Inl String_too_short
          else if length t > 200 then Inl String_too_long
          else validate_title t)"

text \<open>\<open>Field(None, min_length=1, max_length=200)\<close>, an optional string.\<close>

definition title_field_patch :: "string option \<Rightarrow> validation_error + string option" where
  "title_field_patch v =
     (case v of
        None \<Rightarrow> validate_title_patch None
      | Some t \<Rightarrow>
          if length t < 1 then Inl String_too_short
          else if length t > 200 then Inl String_too_long
          else validate_title_patch (Some t))"

text \<open>\<open>Field(None, max_length=1000)\<close>, an optional string.\<close>

definition description_field :: "string option \<Rightarrow> validation_error + string option" where
  "description_field v =
     (case v of
        None \<Rightarrow> validate_description None
      | Some d \<Rightarrow>
          if length d > 1000 then Inl String_too_long
          else validate_description (Some d))"

definition errors_of :: "validation_error + 'a \<Rightarrow> validation_error list" where
  "errors_of r = (case r of Inl e \<Rightarrow> [e] | Inr _ \<Rightarrow> [])"

text \<open>
  The JSON body of a request as it arrives: a field is None when the body leaves it out
  (or, for an optional field, gives null). \<open>TodoCreate\<close> has no \<open>completed\<close> field and
  ignores one that is sent.
\<close>

record todo_body =
  body_title :: "string option"
  body_description :: "string option"
  body_completed :: "bool option"

record TodoCreate =
  create_title :: string
  create_description :: "string option"

record TodoPut =
  put_title :: string
  put_description :: "string option"
  put_completed :: bool

record TodoPatch =
  patch_title :: "string option"
  patch_description :: "string option"
  patch_completed :: "bool option"

definition TodoCreate_validate :: "todo_body \<Rightarrow> validation_error list + TodoCreate" where
  "TodoCreate_validate body =
     (case (title_field (body_title body), description_field (body_description body)) of
        (Inr t, Inr d) \<Rightarrow> Inr \<lparr>create_title = t, create_description = d\<rparr>
      | (t, d) \<Rightarrow> Inl (errors_of t @ errors_of d))"

definition TodoPut_validate :: "todo_body \<Rightarrow> validation_error list + TodoPut" where
  "TodoPut_validate body =
     (case (title_field (body_title body), description_field (body_description body)) of
        (Inr t, Inr d) \<Rightarrow>
          Inr \<lparr>put_title = t, put_description = d,
               put_completed = (case body_completed body of None \<Rightarrow> False | Some c \<Rightarrow> c)\<rparr>
      | (t, d) \<Rightarrow> Inl (errors_of t @ errors_of d))"

definition TodoPatch_validate :: "todo_body \<Rightarrow> validation_error list + TodoPatch" where
  "TodoPatch_validate body =
     (case (title_field_patch (body_title body), description_field (body_description body)) of
        (Inr t, Inr d) \<Rightarrow>
          Inr \<lparr>patch_title = t, patch_description = d, patch_completed = body_completed body\<rparr>
      | (t, d) \<Rightarrow> Inl (errors_of t @ errors_of d))"

section \<open>The store\<close>

text \<open>
  The application keeps its data in two tables, \<open>todos\<close> and \<open>users\<close>, and reaches them
  through SQL statements on a pooled connection. A table is a list of rows, in the order
  in which the store scans it; \<open>fetchrow\<close> returns the first row a statement selects.
  Every statement that runs on the connection is recorded in \<open>executed\<close>, so that a
  function that returns without writing can be told from one that writes a row back
  unchanged. Integers are Python's unbounded ints; timestamps are whole seconds.
  The store answers every statement: a lost connection is outside the model, so the
  \<open>except Exception\<close> branches of the source are reached only where the code itself, or
  the statement it sends, fails.
\<close>

record todo_row =
  todo_id :: int
  title :: string
  description :: "string option"
  completed :: bool
  created_at :: int
  user_id :: "int option"

record user_row =
  user_row_id :: int
  username :: string
  email :: string
  hashed_password :: string
  is_active :: bool
  user_created_at :: int

datatype statement = SELECT | INSERT | UPDATE | DELETE

record store =
  todos :: "todo_row list"
  users :: "user_row list"
  todos_id_seq :: int
  users_id_seq :: int
  executed :: "statement list"

definition ran :: "statement \<Rightarrow> store \<Rightarrow> store" where
  "ran q s = s\<lparr>executed := executed s @ [q]\<rparr>"

text \<open>\<open>conn.fetchrow('SELECT * FROM todos WHERE ...')\<close>: the first matching row, or None.\<close>

definition fetchrow_todos :: "(todo_row \<Rightarrow> bool) \<Rightarrow> store \<Rightarrow> todo_row option \<times> store" where
  "fetchrow_todos wh s = (find wh (todos s), ran SELECT s)"

text \<open>
  \<open>conn.fetchrow('UPDATE todos SET ... WHERE ... RETURNING ...')\<close>: every matching row is
  overwritten in place, and the first of the rewritten rows is returned.
\<close>

definition fetchrow_update_todos ::
  "(todo_row \<Rightarrow> todo_row) \<Rightarrow> (todo_row \<Rightarrow> bool) \<Rightarrow> store \<Rightarrow> todo_row option \<times> store" where
  "fetchrow_update_todos set_clause wh s =
     (map_option set_clause (find wh (todos s)),
      ran UPDATE (s\<lparr>todos := map (\<lambda>r. if wh r then set_clause r else r) (todos s)\<rparr>))"


section \<open>Errors\<close>

text \<open>
  \<open>DatabaseError\<close> wraps whatever exception the \<open>try\<close> block caught; the model names the
  cause instead of carrying the formatted message. \<open>RequestValidationError\<close> is the
  framework's answer (422) to a body or query that fails its schema, and
  \<open>InternalServerError\<close> its answer (500) to an exception that no handler caught.
\<close>

datatype cause =
  ZeroDivisionError
  | NegativeOffset
  | NegativeLimit
  | NoRowReturned

datatype error =
  TodoNotFoundError int
  | DatabaseError cause
  | UserAlreadyExistsError string string
  | HTTPException nat string
  | RequestValidationError "validation_error list"
  | InternalServerError cause

section \<open>app/crud/todos.py\<close>

text \<open>The WHERE clauses \<open>id = $1 AND user_id = $2\<close> and \<open>id = $1\<close>. A NULL owner matches no caller.\<close>

definition id_and_user :: "int \<Rightarrow> int \<Rightarrow> todo_row \<Rightarrow> bool" where
  "id_and_user tid uid r = (todo_id r = tid \<and> user_id r = Some uid)"

definition id_only :: "int \<Rightarrow> todo_row \<Rightarrow> bool" where
  "id_only tid r = (todo_id r = tid)"

definition get_todo_or_raise :: "store \<Rightarrow> int \<Rightarrow> int option \<Rightarrow> (error + todo_row) \<times> store" where
  "get_todo_or_raise conn tid uid =
     (let (row, conn') =
            (case uid of
               Some u \<Rightarrow> fetchrow_todos (id_and_user tid u) conn
             | None \<Rightarrow> fetchrow_todos (id_only tid) conn)
      in case row of
           None \<Rightarrow> (Inl (TodoNotFoundError tid), conn')
         | Some r \<Rightarrow> (Inr r, conn'))"

text \<open>\<open>TodoResponse(**row)\<close> copies the six columns; the response is the row.\<close>

definition get_todo :: "store \<Rightarrow> int \<Rightarrow> int \<Rightarrow> (error + todo_row) \<times> store" where
  "get_todo conn tid uid = get_todo_or_raise conn tid (Some uid)"

text \<open>
  \<open>TodoResponse(**updated_row)\<close> raises a TypeError when the UPDATE returned no row; the
  \<open>except\<close> branch turns it into a DatabaseError.
\<close>

definition response_of :: "todo_row option \<times> store \<Rightarrow> (error + todo_row) \<times> store" where
  "response_of out =
     (case fst out of
        None \<Rightarrow> (Inl (DatabaseError NoRowReturned), snd out)
      | Some r \<Rightarrow> (Inr r, snd out))"

definition replace_todo :: "store \<Rightarrow> int \<Rightarrow> TodoPut \<Rightarrow> int \<Rightarrow> (error + todo_row) \<times> store" where
  "replace_todo conn tid data uid =
     (case get_todo_or_raise conn tid (Some uid) of
        (Inl e, conn') \<Rightarrow> (Inl e, conn')
      | (Inr _, conn') \<Rightarrow>
          response_of
            (fetchrow_update_todos
               (\<lambda>r. r\<lparr>title := put_title data, description := put_description data,
                      completed := put_completed data\<rparr>)
               (id_and_user tid uid) conn'))"

text \<open>
  \<open>update_todo\<close> assembles its SET clause from the fields of the patch that are not
  None, in the order title, description, completed; \<open>update_fields\<close> holds one
  assignment for each.
\<close>

definition update_fields :: "TodoPatch \<Rightarrow> (todo_row \<Rightarrow> todo_row) list" where
  "update_fields patch =
     (case patch_title patch of None \<Rightarrow> [] | Some t \<Rightarrow> [\<lambda>r. r\<lparr>title := t\<rparr>])
     @ (case patch_description patch of None \<Rightarrow> []
        | Some d \<Rightarrow> [\<lambda>r. r\<lparr>description := Some d\<rparr>])
     @ (case patch_completed patch of None \<Rightarrow> [] | Some c \<Rightarrow> [\<lambda>r. r\<lparr>completed := c\<rparr>])"

definition assign :: "(todo_row \<Rightarrow> todo_row) list \<Rightarrow> todo_row \<Rightarrow> todo_row" where
  "assign fs r = fold (\<lambda>f acc. f acc) fs r"

definition update_todo :: "store \<Rightarrow> int \<Rightarrow> TodoPatch \<Rightarrow> int \<Rightarrow> (error + todo_row) \<times> store" where
  "update_todo conn tid patch uid =
     (case get_todo_or_raise conn tid (Some uid) of
        (Inl e, conn') \<Rightarrow> (Inl e, conn')
      | (Inr existing, conn') \<Rightarrow>
          (case update_fields patch of
             [] \<Rightarrow> (Inr existing, conn')
           | _ # _ \<Rightarrow>
               response_of
                 (fetchrow_update_todos (assign (update_fields patch))
                    (id_and_user tid uid) conn')))"



text \<open>
  \<open>list_todos\<close> builds its WHERE clause from the owner, then \<open>completed = $n\<close> when a
  filter is given, then \<open>(title ILIKE $n OR description ILIKE $n)\<close> with the pattern
  \<open>%search%\<close> when a search text is given. A NULL description matches no pattern.
\<close>

definition list_where :: "int \<Rightarrow> bool option \<Rightarrow> string option \<Rightarrow> todo_row \<Rightarrow> bool" where
  "list_where uid completed_filter search r =
     (user_id r = Some uid
      \<and> (case completed_filter of None \<Rightarrow> True | Some c \<Rightarrow> completed r = c)
      \<and> (case search of
           None \<Rightarrow> True
         | Some q \<Rightarrow>
             ilike (title r) (''%'' @ q @ ''%'')
             \<or> (case description r of
                  None \<Rightarrow> False
                | Some d \<Rightarrow> ilike d (''%'' @ q @ ''%''))))"

text \<open>\<open>conn.fetchval('SELECT COUNT(*) FROM todos WHERE ...')\<close>.\<close>

definition fetchval_count_todos :: "(todo_row \<Rightarrow> bool) \<Rightarrow> store \<Rightarrow> int \<times> store" where
  "fetchval_count_todos wh s = (int (length (filter wh (todos s))), ran SELECT s)"

text \<open>
  \<open>conn.fetch('SELECT * FROM todos WHERE ... ORDER BY created_at DESC LIMIT $n OFFSET $m')\<close>.
  The store refuses a negative OFFSET and a negative LIMIT. Rows with the same
  \<open>created_at\<close> stay in table order.
\<close>

definition fetch_todos_page ::
  "(todo_row \<Rightarrow> bool) \<Rightarrow> int \<Rightarrow> int \<Rightarrow> store \<Rightarrow> (cause + todo_row list) \<times> store" where
  "fetch_todos_page wh limit offset s =
     (if offset < 0 then Inl NegativeOffset
      else if limit < 0 then Inl NegativeLimit
      else Inr (take (nat limit) (drop (nat offset)
             (sort_key (\<lambda>r. - created_at r) (filter wh (todos s))))),
      ran SELECT s)"

record TodosWithPagination =
  res_todos :: "todo_row list"
  res_total_count :: int
  res_page :: int
  res_page_size :: int
  res_total_pages :: int

definition list_todos ::
  "store \<Rightarrow> int \<Rightarrow> bool option \<Rightarrow> string option \<Rightarrow> int \<Rightarrow> int
   \<Rightarrow> (error + TodosWithPagination) \<times> store" where
  "list_todos conn uid completed_filter search page page_size =
     (let wh = list_where uid completed_filter search;
          (total_count, conn1) = fetchval_count_todos wh conn;
          offset = (page - 1) * page_size
      in if page_size = 0 then (Inl (DatabaseError ZeroDivisionError), conn1)
         else
           let total_pages = (total_count + page_size - 1) div page_size
           in case fetch_todos_page wh page_size offset conn1 of
                (Inl c, conn2) \<Rightarrow> (Inl (DatabaseError c), conn2)
              | (Inr rows, conn2) \<Rightarrow>
                  (Inr \<lparr>res_todos = rows, res_total_count = total_count, res_page = page,
                        res_page_size = page_size, res_total_pages = total_pages\<rparr>,
                   conn2))"

text \<open>
  \<open>create_todo\<close> inserts title, description and owner. The other columns take the
  table's defaults: the id comes from the table's sequence, \<open>completed\<close> is false and
  \<open>created_at\<close> is the time of the insert.
\<close>

definition create_todo :: "int \<Rightarrow> store \<Rightarrow> TodoCreate \<Rightarrow> int \<Rightarrow> (error + todo_row) \<times> store" where
  "create_todo now conn todo uid =
     (let row = \<lparr>todo_id = todos_id_seq conn + 1, title = create_title todo,
                  description = create_description todo, completed = False,
                  created_at = now, user_id = Some uid\<rparr>
      in (Inr row,
          ran INSERT (conn\<lparr>todos := todos conn @ [row], todos_id_seq := todos_id_seq conn + 1\<rparr>)))"

section \<open>app/routes/todos.py\<close>

text \<open>
  The routes run for a caller that the authorization layer has resolved to a user id.
  A body that fails its schema, or a query parameter outside its bounds
  (\<open>page\<close> at least 1, \<open>page_size\<close> from 1 to 100), is answered before the route's
  function runs.
\<close>

definition route_get_todos ::
  "store \<Rightarrow> bool option \<Rightarrow> string option \<Rightarrow> int \<Rightarrow> int \<Rightarrow> int
   \<Rightarrow> (error + TodosWithPagination) \<times> store" where
  "route_get_todos conn completed_filter search page page_size uid =
     (case (if page < 1 then [Greater_than_equal] else [])
           @ (if page_size < 1 then [Greater_than_equal]
              else if page_size > 100 then [Less_than_equal] else []) of
        [] \<Rightarrow> list_todos conn uid completed_filter search page page_size
      | e # errs \<Rightarrow> (Inl (RequestValidationError (e # errs)), conn))"

definition route_create_todo ::
  "int \<Rightarrow> store \<Rightarrow> todo_body \<Rightarrow> int \<Rightarrow> (error + todo_row) \<times> store" where
  "route_create_todo now conn body uid =
     (case TodoCreate_validate body of
        Inl errs \<Rightarrow> (Inl (RequestValidationError errs), conn)
      | Inr todo \<Rightarrow> create_todo now conn todo uid)"

definition route_replace_todo ::
  "store \<Rightarrow> int \<Rightarrow> todo_body \<Rightarrow> int \<Rightarrow> (error + todo_row) \<times> store" where
  "route_replace_todo conn tid body uid =
     (case TodoPut_validate body of
        Inl errs \<Rightarrow> (Inl (RequestValidationError errs), conn)
      | Inr todo_put \<Rightarrow> replace_todo conn tid todo_put uid)"

definition route_update_todo ::
  "store \<Rightarrow> int \<Rightarrow> todo_body \<Rightarrow> int \<Rightarrow> (error + todo_row) \<times> store" where
  "route_update_todo conn tid body uid =
     (case TodoPatch_validate body of
        Inl errs \<Rightarrow> (Inl (RequestValidationError errs), conn)
      | Inr todo_update \<Rightarrow> update_todo conn tid todo_update uid)"

definition toggle_todo_completion :: "store \<Rightarrow> int \<Rightarrow> int \<Rightarrow> (error + todo_row) \<times> store" where
  "toggle_todo_completion conn tid uid =
     (case get_todo conn tid uid of
        (Inl e, conn') \<Rightarrow> (Inl e, conn')
      | (Inr current_todo, conn') \<Rightarrow>
          update_todo conn' tid
            \<lparr>patch_title = None, patch_description = None,
             patch_completed = Some (\<not> completed current_todo)\<rparr> uid)"

section \<open>app/core/security.py\<close>

text \<open>
  Time is counted in whole seconds, the resolution of a token's \<open>exp\<close> claim:
  \<open>datetime.utcnow()\<close> is the parameter \<open>utcnow\<close>, and a \<open>timedelta\<close> is a number of
  seconds, which may be zero or negative.
\<close>

definition SECRET_KEY :: string where
  "SECRET_KEY = ''your-secret-key-change-in-production''"

definition ACCESS_TOKEN_EXPIRE_MINUTES :: int where
  "ACCESS_TOKEN_EXPIRE_MINUTES = 30"

definition timedelta_minutes :: "int \<Rightarrow> int" where
  "timedelta_minutes m = m * 60"

text \<open>
  The JWT library (python-jose) is not part of the repository. The model keeps what
  \<open>jwt.encode\<close> and \<open>jwt.decode\<close> do with a payload: \<open>encode\<close> signs the payload with a
  key; \<open>decode\<close> raises a \<open>JWTError\<close> (here None) for a string that is not a token, for a
  signature made with another key, for an \<open>exp\<close> claim that is not a number or lies before
  the current time, and for a \<open>sub\<close> claim that is not a string, and returns the payload
  otherwise. A token whose \<open>exp\<close> equals the current second is still accepted.
\<close>

datatype claim_value = Str string | NumericDate int

type_synonym payload = "string \<rightharpoonup> claim_value"

datatype token = Jwt payload string | Garbage string

definition jwt_encode :: "payload \<Rightarrow> string \<Rightarrow> token" where
  "jwt_encode claims key = Jwt claims key"

definition jwt_decode :: "int \<Rightarrow> token \<Rightarrow> string \<Rightarrow> payload option" where
  "jwt_decode utcnow tok key =
     (case tok of
        Garbage _ \<Rightarrow> None
      | Jwt claims signed_with \<Rightarrow>
          if signed_with \<noteq> key then None
          else if (case claims ''exp'' of
                     None \<Rightarrow> False
                   | Some (Str _) \<Rightarrow> True
                   | Some (NumericDate expiry) \<Rightarrow> expiry < utcnow) then None
          else if (case claims ''sub'' of Some (NumericDate _) \<Rightarrow> True | _ \<Rightarrow> False) then None
          else Some claims)"

text \<open>
  \<open>if expires_delta:\<close> takes the first branch for a \<open>timedelta\<close> that is neither None nor
  zero: \<open>timedelta(0)\<close> is falsy.
\<close>

definition create_access_token :: "int \<Rightarrow> payload \<Rightarrow> int option \<Rightarrow> token" where
  "create_access_token utcnow data expires_delta =
     (let expire =
            (case expires_delta of
               Some delta \<Rightarrow>
                 if delta \<noteq> 0 then utcnow + delta else utcnow + timedelta_minutes 15
             | None \<Rightarrow> utcnow + timedelta_minutes 15);
          to_encode = data(''exp'' \<mapsto> NumericDate expire)
      in jwt_encode to_encode SECRET_KEY)"

text \<open>
  The password hashing context (passlib, bcrypt) is not part of the repository either;
  its two functions are fields of a record that the functions below take as a parameter.
\<close>

record pwd_context =
  ctx_hash :: "string \<Rightarrow> string"
  ctx_verify :: "string \<Rightarrow> string \<Rightarrow> bool"

definition verify_password :: "pwd_context \<Rightarrow> string \<Rightarrow> string \<Rightarrow> bool" where
  "verify_password ctx plain_password hashed = ctx_verify ctx plain_password hashed"

definition get_password_hash :: "pwd_context \<Rightarrow> string \<Rightarrow> string" where
  "get_password_hash ctx password = ctx_hash ctx password"

text \<open>
  An \<open>HTTPException\<close> is modelled by its status code and detail; the 401 ones also carry
  the header \<open>WWW-Authenticate: Bearer\<close>.
\<close>

definition credentials_exception :: error where
  "credentials_exception = HTTPException 401 ''Invalid authentication credentials''"

definition verify_token :: "int \<Rightarrow> token \<Rightarrow> error + payload" where
  "verify_token utcnow tok =
     (case jwt_decode utcnow tok SECRET_KEY of
        None \<Rightarrow> Inl credentials_exception
      | Some claims \<Rightarrow>
          (case claims ''sub'' of
             None \<Rightarrow> Inl credentials_exception
           | Some _ \<Rightarrow> Inr claims))"

section \<open>app/crud/users.py\<close>

record UserCreate =
  new_username :: string
  new_email :: string
  new_password :: string

record UserResponse =
  resp_id :: int
  resp_username :: string
  resp_email :: string
  resp_is_active :: bool
  resp_created_at :: int

definition user_response :: "user_row \<Rightarrow> UserResponse" where
  "user_response r =
     \<lparr>resp_id = user_row_id r, resp_username = username r, resp_email = email r,
      resp_is_active = is_active r, resp_created_at = user_created_at r\<rparr>"

text \<open>\<open>conn.fetchrow('SELECT ... FROM users WHERE ...')\<close>.\<close>

definition fetchrow_users :: "(user_row \<Rightarrow> bool) \<Rightarrow> store \<Rightarrow> user_row option \<times> store" where
  "fetchrow_users wh s = (find wh (users s), ran SELECT s)"

text \<open>
  \<open>conn.fetchrow('INSERT INTO users (username, email, hashed_password) ... RETURNING ...')\<close>.
  Modelled from the spec: the defaults of the other columns of the \<open>users\<close> table, whose
  migration is not in the repository. The id is assigned by the system, a new account is
  active and its creation time is the time of the insert.
\<close>

definition fetchrow_insert_user ::
  "int \<Rightarrow> string \<Rightarrow> string \<Rightarrow> string \<Rightarrow> store \<Rightarrow> user_row \<times> store" where
  "fetchrow_insert_user now name mail hashed s =
     (let row = \<lparr>user_row_id = users_id_seq s + 1, username = name, email = mail,
                  hashed_password = hashed, is_active = True, user_created_at = now\<rparr>
      in (row, ran INSERT (s\<lparr>users := users s @ [row], users_id_seq := users_id_seq s + 1\<rparr>)))"

definition create_user ::
  "pwd_context \<Rightarrow> int \<Rightarrow> store \<Rightarrow> UserCreate \<Rightarrow> (error + UserResponse) \<times> store" where
  "create_user ctx now conn user =
     (let (existing_user, conn1) =
            fetchrow_users
              (\<lambda>r. username r = new_username user \<or> email r = new_email user) conn
      in case existing_user of
           Some found \<Rightarrow>
             if username found = new_username user
             then (Inl (UserAlreadyExistsError ''username'' (new_username user)), conn1)
             else (Inl (UserAlreadyExistsError ''email'' (new_email user)), conn1)
         | None \<Rightarrow>
             let hashed = get_password_hash ctx (new_password user);
                 (row, conn2) =
                   fetchrow_insert_user now (new_username user) (new_email user) hashed conn1
             in (Inr (user_response row), conn2))"

definition get_user_by_username :: "store \<Rightarrow> string \<Rightarrow> user_row option \<times> store" where
  "get_user_by_username conn name =
     fetchrow_users (\<lambda>r. username r = name \<and> is_active r) conn"

definition authenticate_user ::
  "pwd_context \<Rightarrow> store \<Rightarrow> string \<Rightarrow> string \<Rightarrow> UserResponse option \<times> store" where
  "authenticate_user ctx conn name password =
     (case get_user_by_username conn name of
        (None, conn') \<Rightarrow> (None, conn')
      | (Some user_data, conn') \<Rightarrow>
          if \<not> verify_password ctx password (hashed_password user_data)
          then (None, conn')
          else (Some (user_response user_data), conn'))"

section \<open>app/routes/auth.py\<close>

record UserLogin =
  login_username :: string
  login_password :: string

record Token =
  access_token :: token
  token_type :: string

definition register_user ::
  "pwd_context \<Rightarrow> int \<Rightarrow> store \<Rightarrow> UserCreate \<Rightarrow> (error + UserResponse) \<times> store" where
  "register_user ctx now conn user =
     (case create_user ctx now conn user of
        (Inl (UserAlreadyExistsError field _), conn') \<Rightarrow>
          (Inl (HTTPException 409 (''User with this '' @ field @ '' already exists'')), conn')
      | out \<Rightarrow> out)"

definition login_user ::
  "pwd_context \<Rightarrow> int \<Rightarrow> store \<Rightarrow> UserLogin \<Rightarrow> (error + Token) \<times> store" where
  "login_user ctx utcnow conn user_credentials =
     (case authenticate_user ctx conn (login_username user_credentials)
             (login_password user_credentials) of
        (None, conn') \<Rightarrow> (Inl (HTTPException 401 ''Incorrect username or password''), conn')
      | (Some user, conn') \<Rightarrow>
          (let access_token_expires = timedelta_minutes ACCESS_TOKEN_EXPIRE_MINUTES;
               tok = create_access_token utcnow [''sub'' \<mapsto> Str (resp_username user)]
                       (Some access_token_expires)
           in (Inr \<lparr>access_token = tok, token_type = ''bearer''\<rparr>, conn')))"

section \<open>Floats\<close>

text \<open>
  A Python \<open>float\<close> is an IEEE 754 binary64 number; the model represents it by the
  rational number it stands for. Every arithmetic operation returns the exact result
  rounded to the nearest representable number, ties to the even significand:
  \<open>binary64\<close> is that rounding, for results that do not overflow (the ones below stay
  under 128). A number of magnitude from \<open>2 ^ e\<close> up to \<open>2 ^ (e + 1)\<close> is rounded to a
  multiple of \<open>2 ^ (e - 52)\<close>, and to a multiple of \<open>2 ^ - 1074\<close> when it is subnormal.
\<close>

definition round_half_even :: "rat \<Rightarrow> int" where
  "round_half_even q =
     (let f = \<lfloor>q\<rfloor>; r = q - of_int f
      in if r < 1 / 2 then f
         else if 1 / 2 < r then f + 1
         else if even f then f else f + 1)"

text \<open>The largest \<open>e\<close> with \<open>2 ^ e \<le> q\<close>, for a positive \<open>q\<close>.\<close>

definition floor_log2 :: "rat \<Rightarrow> int" where
  "floor_log2 q =
     (let (a, b) = quotient_of q;
          k = bitlen a - bitlen b
      in if 2 powi k \<le> q then k else k - 1)"

definition binary64 :: "rat \<Rightarrow> rat" where
  "binary64 q =
     (if q = 0 then 0
      else let e = max (floor_log2 \<bar>q\<bar> - 52) (- 1074)
           in of_int (round_half_even (q / 2 powi e)) * 2 powi e)"


definition float_mul :: "rat \<Rightarrow> rat \<Rightarrow> rat" where
  "float_mul x y = binary64 (x * y)"

text \<open>
  \<open>round(x, ndigits)\<close> on a float: the multiple of \<open>10 ^ - ndigits\<close> closest to the
  number \<open>x\<close> stands for, the even one of two equally close, as a float. On the int \<open>0\<close>
  it returns \<open>0\<close>, which is also what the model gives.
\<close>

definition float_round :: "rat \<Rightarrow> nat \<Rightarrow> rat" where
  "float_round x ndigits =
     binary64 (of_int (round_half_even (x * 10 ^ ndigits)) / 10 ^ ndigits)"

section \<open>app/routes/todos.py: statistics\<close>




section \<open>Notions used in the statements\<close>


text \<open>What a validator accepted, or None when it raised.\<close>

definition accepted :: "'e + 'a \<Rightarrow> 'a option" where
  "accepted r = (case r of Inl _ \<Rightarrow> None | Inr v \<Rightarrow> Some v)"

text \<open>
  The validation rules in the words of the specification. Title: refuse it if it is empty
  or all whitespace after trimming, if it contains \<open><\<close> or \<open>>\<close>, or if it has more than
  200 characters; store it trimmed. Description: refuse it if \<open><script\<close> or \<open></script>\<close>
  occurs in it in any mix of cases, or if it has more than 1000 characters; trim it, and
  take a result with nothing left as absent. None is a refusal.
\<close>

definition title_rule :: "string \<Rightarrow> string option" where
  "title_rule t =
     (if strip t = [] \<or> CHR ''<'' \<in> set t \<or> CHR ''>'' \<in> set t \<or> 200 < length t
      then None else Some (strip t))"

definition description_rule :: "string \<Rightarrow> string option option" where
  "description_rule d =
     (if contains ''<script'' (lower d) \<or> contains ''</script>'' (lower d) \<or> 1000 < length d
      then None
      else Some (if strip d = [] then None else Some (strip d)))"

text \<open>The patch that \<open>TodoPatch(completed=c)\<close> builds: only \<open>completed\<close> is given.\<close>

definition only_completed :: "bool \<Rightarrow> TodoPatch" where
  "only_completed c = \<lparr>patch_title = None, patch_description = None, patch_completed = Some c\<rparr>"

text \<open>A store where user 1 owns todo 3 and user 2 owns todo 7.\<close>

definition milk :: todo_row where
  "milk = \<lparr>todo_id = 3, title = ''buy milk'', description = Some ''2 litres'',
           completed = False, created_at = 50, user_id = Some 1\<rparr>"

definition rent :: todo_row where
  "rent = \<lparr>todo_id = 7, title = ''pay rent'', description = None,
           completed = False, created_at = 100, user_id = Some 2\<rparr>"

definition two_users_store :: store where
  "two_users_store =
     \<lparr>todos = [milk, rent], users = [], todos_id_seq = 7, users_id_seq = 2, executed = []\<rparr>"



text \<open>
  A password context for the examples: the hash of a password is the password behind
  the prefix \<open>hash:\<close>.
\<close>

definition plain_context :: pwd_context where
  "plain_context =
     \<lparr>ctx_hash = (\<lambda>password. ''hash:'' @ password),
      ctx_verify = (\<lambda>password hashed. hashed = ''hash:'' @ password)\<rparr>"

text \<open>A store with two accounts, bob's row before alice's.\<close>

definition alice :: user_row where
  "alice = \<lparr>user_row_id = 1, username = ''alice'', email = ''alice@example.org'',
            hashed_password = ''hash:wonderland'', is_active = True, user_created_at = 10\<rparr>"

definition bob :: user_row where
  "bob = \<lparr>user_row_id = 2, username = ''bob'', email = ''bob@example.org'',
          hashed_password = ''hash:builder'', is_active = True, user_created_at = 20\<rparr>"

definition accounts_store :: store where
  "accounts_store =
     \<lparr>todos = [], users = [bob, alice], todos_id_seq = 0, users_id_seq = 2, executed = []\<rparr>"


section \<open>Ownership scoping\<close>

lemma todos_ran [simp]: "todos (ran q s) = todos s"
  by (simp add: ran_def)

lemma executed_ran [simp]: "executed (ran q s) = executed s @ [q]"
  by (simp add: ran_def)

lemma find_None_iff_ball: "find P xs = None \<longleftrightarrow> (\<forall>x\<in>set xs. \<not> P x)"
  by (induction xs) auto

lemma get_todo_or_raise_absent:
  assumes "\<forall>r\<in>set (todos conn). \<not> id_and_user tid uid r"
  shows "get_todo_or_raise conn tid (Some uid) = (Inl (TodoNotFoundError tid), ran SELECT conn)"
proof -
  from assms have "find (id_and_user tid uid) (todos conn) = None"
    by (simp add: find_None_iff_ball)
  then show ?thesis
    by (simp add: get_todo_or_raise_def fetchrow_todos_def)
qed

lemma get_todo_or_raise_present:
  assumes "find (id_and_user tid uid) (todos conn) = Some r"
  shows "get_todo_or_raise conn tid (Some uid) = (Inr r, ran SELECT conn)"
  using assms by (simp add: get_todo_or_raise_def fetchrow_todos_def)




section \<open>Partial update\<close>

lemma assign_update_fields:
  "assign (update_fields patch) r =
     r\<lparr>title := (case patch_title patch of None \<Rightarrow> title r | Some t \<Rightarrow> t),
       description :=
         (case patch_description patch of None \<Rightarrow> description r | Some d \<Rightarrow> Some d),
       completed := (case patch_completed patch of None \<Rightarrow> completed r | Some c \<Rightarrow> c)\<rparr>"
  by (simp add: assign_def update_fields_def split: option.splits)

lemma update_fields_empty:
  "update_fields patch = [] \<longleftrightarrow>
     patch_title patch = None \<and> patch_description patch = None \<and> patch_completed patch = None"
  by (simp add: update_fields_def split: option.splits)

lemma find_map_if:
  assumes "\<And>x. P x \<Longrightarrow> P (f x)"
  shows "find P (map (\<lambda>x. if P x then f x else x) xs) = map_option f (find P xs)"
  using assms by (induction xs) auto

lemma update_todo_present:
  assumes "find (id_and_user tid uid) (todos conn) = Some existing"
    and "update_fields patch \<noteq> []"
  shows "update_todo conn tid patch uid =
      (Inr (assign (update_fields patch) existing),
       ran UPDATE (ran SELECT conn
         \<lparr>todos := map (\<lambda>r. if id_and_user tid uid r then assign (update_fields patch) r
                             else r) (todos conn)\<rparr>))"
proof -
  from assms(2) obtain f fs where "update_fields patch = f # fs"
    by (cases "update_fields patch") auto
  then have "update_todo conn tid patch uid =
      response_of (fetchrow_update_todos (assign (update_fields patch))
        (id_and_user tid uid) (ran SELECT conn))"
    by (simp add: update_todo_def get_todo_or_raise_present [OF assms(1)])
  with assms(1) show ?thesis
    by (simp add: response_of_def fetchrow_update_todos_def)
qed

lemma update_todo_nothing_given:
  assumes "find (id_and_user tid uid) (todos conn) = Some existing"
    and "update_fields patch = []"
  shows "update_todo conn tid patch uid = (Inr existing, ran SELECT conn)"
  using assms(2) by (simp add: update_todo_def get_todo_or_raise_present [OF assms(1)])

lemma update_todo_todos:
  "todos (snd (update_todo conn tid patch uid)) =
     map (\<lambda>r. if id_and_user tid uid r then assign (update_fields patch) r else r) (todos conn)"
proof (cases "find (id_and_user tid uid) (todos conn)")
  case None
  then have none: "\<forall>r\<in>set (todos conn). \<not> id_and_user tid uid r"
    by (simp add: find_None_iff_ball)
  then have "map (\<lambda>r. if id_and_user tid uid r then assign (update_fields patch) r else r)
      (todos conn) = todos conn"
    by (intro map_idI) simp
  then show ?thesis
    by (simp add: update_todo_def get_todo_or_raise_absent [OF none])
next
  case (Some existing)
  show ?thesis
  proof (cases "update_fields patch = []")
    case True
    then show ?thesis
      by (simp add: update_todo_nothing_given [OF Some] assign_def map_idI)
  next
    case False
    show ?thesis
      by (simp add: update_todo_present [OF Some False])
  qed
qed

lemma find_after_update:
  assumes "find (id_and_user tid uid) (todos conn) = Some existing"
  shows "find (id_and_user tid uid) (todos (snd (update_todo conn tid patch uid)))
    = Some (assign (update_fields patch) existing)"
proof -
  have "find (id_and_user tid uid)
      (map (\<lambda>r. if id_and_user tid uid r then assign (update_fields patch) r else r)
        (todos conn))
    = map_option (assign (update_fields patch)) (find (id_and_user tid uid) (todos conn))"
    by (rule find_map_if) (simp add: id_and_user_def assign_update_fields)
  then show ?thesis
    by (simp add: update_todo_todos assms)
qed



section \<open>Toggle\<close>

lemma assign_only_completed: "assign (update_fields (only_completed c)) r = r\<lparr>completed := c\<rparr>"
  by (simp add: assign_update_fields only_completed_def)

lemma only_completed_fields: "update_fields (only_completed c) \<noteq> []"
  by (simp add: update_fields_empty only_completed_def)

lemma toggle_is_update:
  assumes "find (id_and_user tid uid) (todos conn) = Some existing"
  shows "toggle_todo_completion conn tid uid =
      update_todo (snd (get_todo conn tid uid)) tid (only_completed (\<not> completed existing)) uid"
  by (simp add: toggle_todo_completion_def get_todo_def
      get_todo_or_raise_present [OF assms] only_completed_def)

lemma toggle_present:
  assumes "find (id_and_user tid uid) (todos conn) = Some existing"
  shows "toggle_todo_completion conn tid uid =
      (Inr (existing\<lparr>completed := \<not> completed existing\<rparr>),
       ran UPDATE (ran SELECT (ran SELECT conn)
         \<lparr>todos := map (\<lambda>r. if id_and_user tid uid r
                             then r\<lparr>completed := \<not> completed existing\<rparr> else r)
                     (todos conn)\<rparr>))"
proof -
  have "snd (get_todo conn tid uid) = ran SELECT conn"
    by (simp add: get_todo_def get_todo_or_raise_present [OF assms])
  moreover have "find (id_and_user tid uid) (todos (ran SELECT conn)) = Some existing"
    using assms by simp
  ultimately show ?thesis
    by (simp add: toggle_is_update [OF assms] update_todo_present [OF _ only_completed_fields]
        assign_only_completed cong: if_cong)
qed

lemma find_after_toggle:
  assumes "find (id_and_user tid uid) (todos conn) = Some existing"
  shows "find (id_and_user tid uid) (todos (snd (toggle_todo_completion conn tid uid)))
    = Some (existing\<lparr>completed := \<not> completed existing\<rparr>)"
proof -
  have "find (id_and_user tid uid)
      (map (\<lambda>r. if id_and_user tid uid r then r\<lparr>completed := \<not> completed existing\<rparr> else r)
        (todos conn))
    = map_option (\<lambda>r. r\<lparr>completed := \<not> completed existing\<rparr>)
        (find (id_and_user tid uid) (todos conn))"
    by (rule find_map_if) (simp add: id_and_user_def)
  then show ?thesis
    by (simp add: toggle_present [OF assms] assms)
qed

text \<open>
  C5. For a todo of the caller, toggle is \<open>update_todo\<close> with the one field
  \<open>completed = not current.completed\<close>, run after the read. It returns and stores the row
  with \<open>completed\<close> flipped (false becomes true), and a second toggle after the first
  returns and stores the row as it was at the start.
\<close>

theorem toggle_flips_completed:
  assumes "find (id_and_user tid uid) (todos conn) = Some existing"
  shows "toggle_todo_completion conn tid uid =
      update_todo (snd (get_todo conn tid uid)) tid
        \<lparr>patch_title = None, patch_description = None,
         patch_completed = Some (\<not> completed existing)\<rparr> uid
    \<and> fst (toggle_todo_completion conn tid uid)
        = Inr (existing\<lparr>completed := \<not> completed existing\<rparr>)
    \<and> find (id_and_user tid uid) (todos (snd (toggle_todo_completion conn tid uid)))
        = Some (existing\<lparr>completed := \<not> completed existing\<rparr>)
    \<and> fst (toggle_todo_completion (snd (toggle_todo_completion conn tid uid)) tid uid)
        = Inr existing
    \<and> find (id_and_user tid uid)
         (todos (snd (toggle_todo_completion (snd (toggle_todo_completion conn tid uid)) tid uid)))
        = Some existing"
proof -
  let ?once = "snd (toggle_todo_completion conn tid uid)"
  have same: "toggle_todo_completion conn tid uid =
      update_todo (snd (get_todo conn tid uid)) tid
        \<lparr>patch_title = None, patch_description = None,
         patch_completed = Some (\<not> completed existing)\<rparr> uid"
    using toggle_is_update [OF assms] by (simp add: only_completed_def)
  have first: "fst (toggle_todo_completion conn tid uid)
      = Inr (existing\<lparr>completed := \<not> completed existing\<rparr>)"
    by (simp add: toggle_present [OF assms])
  note stored = find_after_toggle [OF assms]
  have second: "fst (toggle_todo_completion ?once tid uid) = Inr existing"
    by (simp add: toggle_present [OF stored])
  have stored2: "find (id_and_user tid uid) (todos (snd (toggle_todo_completion ?once tid uid)))
      = Some existing"
    using find_after_toggle [OF stored] by simp
  from same first stored second stored2 show ?thesis
    by (intro conjI)
qed

theorem toggle_flips_completed_witness:
  "fst (toggle_todo_completion two_users_store 3 1) = Inr (milk\<lparr>completed := True\<rparr>)
    \<and> fst (toggle_todo_completion (snd (toggle_todo_completion two_users_store 3 1)) 3 1)
        = Inr milk
    \<and> completed milk = False"
proof -
  have owned: "find (id_and_user 3 1) (todos two_users_store) = Some milk"
    by (simp add: two_users_store_def milk_def id_and_user_def)
  have unset: "completed milk = False"
    by (simp add: milk_def)
  from toggle_flips_completed [OF owned]
  have "fst (toggle_todo_completion two_users_store 3 1)
      = Inr (milk\<lparr>completed := \<not> completed milk\<rparr>)"
    and "fst (toggle_todo_completion (snd (toggle_todo_completion two_users_store 3 1)) 3 1)
      = Inr milk"
    by blast+
  with unset show ?thesis
    by simp
qed

section \<open>Validation\<close>

lemma contains_iff: "contains sub v \<longleftrightarrow> (\<exists>ps ss. v = ps @ sub @ ss)"
proof (induction v)
  case Nil
  then show ?case by auto
next
  case (Cons c cs)
  show ?case
  proof
    assume "contains sub (c # cs)"
    then consider "prefix sub (c # cs)" | "contains sub cs" by auto
    then show "\<exists>ps ss. c # cs = ps @ sub @ ss"
    proof cases
      case 1
      then obtain ss where "c # cs = sub @ ss" by (auto simp: prefix_def)
      then have "c # cs = [] @ sub @ ss" by simp
      then show ?thesis by blast
    next
      case 2
      with Cons obtain ps ss where "cs = ps @ sub @ ss" by blast
      then have "c # cs = (c # ps) @ sub @ ss" by simp
      then show ?thesis by blast
    qed
  next
    assume "\<exists>ps ss. c # cs = ps @ sub @ ss"
    then obtain ps ss where eq: "c # cs = ps @ sub @ ss" by blast
    show "contains sub (c # cs)"
    proof (cases ps)
      case Nil
      with eq have "prefix sub (c # cs)" by (simp add: prefix_def)
      then show ?thesis by simp
    next
      case (Cons p ps')
      with eq have "cs = ps' @ sub @ ss" by simp
      with Cons.IH have "contains sub cs" by blast
      then show ?thesis by simp
    qed
  qed
qed

lemma dropWhile_keeps:
  assumes "n \<noteq> []" and "\<not> P (hd n)"
  shows "\<exists>ps'. dropWhile P (ps @ n @ ss) = ps' @ n @ ss"
proof (cases "\<forall>x\<in>set ps. P x")
  case True
  from assms obtain x xs where n: "n = x # xs" and "\<not> P x"
    by (cases n) auto
  then have "dropWhile P (n @ ss) = n @ ss" by simp
  with True have "dropWhile P (ps @ n @ ss) = [] @ n @ ss"
    by (simp add: dropWhile_append)
  then show ?thesis by blast
next
  case False
  then have "dropWhile P (ps @ n @ ss) = dropWhile P ps @ n @ ss"
    by (auto simp: dropWhile_append)
  then show ?thesis by blast
qed

lemma strip_keeps:
  assumes "n \<noteq> []" and "\<not> whitespace (hd n)" and "\<not> whitespace (last n)"
  shows "\<exists>ps' ss'. strip (ps @ n @ ss) = ps' @ n @ ss'"
proof -
  from dropWhile_keeps [of n whitespace ps ss] assms(1,2) obtain ps' where
    front: "dropWhile whitespace (ps @ n @ ss) = ps' @ n @ ss" by blast
  have "rev n \<noteq> []" and "\<not> whitespace (hd (rev n))"
    using assms by (simp_all add: hd_rev)
  from dropWhile_keeps [of "rev n" whitespace "rev ss" "rev ps'"] this obtain ss' where
    "dropWhile whitespace (rev ss @ rev n @ rev ps') = ss' @ rev n @ rev ps'" by blast
  then have "strip (ps @ n @ ss) = ps' @ n @ rev ss'"
    by (simp add: strip_def front)
  then show ?thesis by blast
qed

lemma whitespace_lower: "whitespace c \<Longrightarrow> lower_char c = c"
  by (auto simp: whitespace_def lower_char_def Let_def)

lemma whitespace_lower_iff: "whitespace (lower_char c) = whitespace c"
  by (auto simp: whitespace_def lower_char_def Let_def)

lemma lower_strip: "lower (strip v) = strip (lower v)"
  by (simp add: lower_def strip_def rev_map dropWhile_map comp_def whitespace_lower_iff)

lemma contains_strip:
  assumes "contains n v" and "n \<noteq> []" and "\<not> whitespace (hd n)" and "\<not> whitespace (last n)"
  shows "contains n (strip v)"
proof -
  from assms(1) obtain ps ss where "v = ps @ n @ ss"
    by (auto simp: contains_iff)
  with strip_keeps [OF assms(2-4), of ps ss] show ?thesis
    by (auto simp: contains_iff)
qed

lemma mem_strip:
  assumes "c \<in> set v" and "\<not> whitespace c"
  shows "c \<in> set (strip v)"
proof -
  from assms(1) obtain ps ss where "v = ps @ [c] @ ss"
    by (auto simp: in_set_conv_decomp)
  with strip_keeps [of "[c]" ps ss] assms(2) obtain ps' ss' where
    "strip v = ps' @ [c] @ ss'" by auto
  then show ?thesis by simp
qed

lemma strip_empty_iff: "strip v = [] \<longleftrightarrow> list_all whitespace v"
proof
  assume e: "strip v = []"
  show "list_all whitespace v"
  proof (rule ccontr)
    assume "\<not> list_all whitespace v"
    then obtain c where "c \<in> set v" "\<not> whitespace c"
      by (auto simp: list_all_iff)
    from mem_strip [OF this] e show False by simp
  qed
next
  assume "list_all whitespace v"
  then have "dropWhile whitespace v = []"
    by (simp only: dropWhile_eq_Nil_conv list_all_iff)
  then show "strip v = []"
    unfolding strip_def by (simp only: rev.simps dropWhile.simps)
qed

lemma lt_not_space: "\<not> whitespace CHR ''<''" "\<not> whitespace CHR ''>''" "\<not> whitespace CHR ''t''"
  by (simp_all add: whitespace_def)

lemma set_strip: "set (strip v) \<subseteq> set v"
proof -
  have "set (strip v) \<subseteq> set (dropWhile whitespace v)"
    unfolding strip_def using set_dropWhileD [of _ whitespace "rev (dropWhile whitespace v)"]
    by auto
  also have "\<dots> \<subseteq> set v"
    using set_dropWhileD [of _ whitespace v] by auto
  finally show ?thesis .
qed

lemma strip_infix: "\<exists>ps ss. v = ps @ strip v @ ss"
proof -
  let ?front = "dropWhile whitespace v"
  have "rev ?front = takeWhile whitespace (rev ?front) @ dropWhile whitespace (rev ?front)"
    by simp
  then have "?front = strip v @ rev (takeWhile whitespace (rev ?front))"
    unfolding strip_def by (metis rev_append rev_rev_ident)
  moreover have "v = takeWhile whitespace v @ ?front"
    by simp
  ultimately have "v = takeWhile whitespace v @ strip v @ rev (takeWhile whitespace (rev ?front))"
    by simp
  then show ?thesis by blast
qed

lemma contains_strip_back:
  assumes "contains n (strip v)"
  shows "contains n v"
proof -
  from assms obtain ps ss where inner: "strip v = ps @ n @ ss"
    by (auto simp: contains_iff)
  obtain ps' ss' where "v = ps' @ strip v @ ss'"
    using strip_infix by blast
  with inner have "v = (ps' @ ps) @ n @ (ss @ ss')" by simp
  then show ?thesis
    unfolding contains_iff by blast
qed

lemma blank_iff: "(t = [] \<or> isspace t) \<longleftrightarrow> strip t = []"
  by (auto simp: isspace_def strip_empty_iff)

lemma tag_in_strip:
  "(CHR ''<'' \<in> set (strip t) \<or> CHR ''>'' \<in> set (strip t))
    \<longleftrightarrow> (CHR ''<'' \<in> set t \<or> CHR ''>'' \<in> set t)"
  using set_strip [of t] mem_strip [of "CHR ''<''" t] mem_strip [of "CHR ''>''" t]
  by (auto simp: lt_not_space)

lemma strip_Nil [simp]: "strip [] = []"
  by (simp add: strip_def)

lemma validate_title_eq:
  "validate_title t =
     (if strip t = [] then Inl (ValueError ''Title cannot be empty or just whitespace'')
      else if CHR ''<'' \<in> set t \<or> CHR ''>'' \<in> set t
      then Inl (ValueError ''Title cannot contain HTML tags'')
      else Inr (strip t))"
  unfolding validate_title_def blank_iff Let_def tag_in_strip ..

lemma validate_title_patch_eq:
  "validate_title_patch (Some t) = map_sum (\<lambda>e. e) Some (validate_title t)"
  by (simp add: validate_title_patch_def validate_title_def Let_def)

lemma script_in_strip:
  "contains ''<script'' (lower (strip d)) \<longleftrightarrow> contains ''<script'' (lower d)"
  "contains ''</script>'' (lower (strip d)) \<longleftrightarrow> contains ''</script>'' (lower d)"
  unfolding lower_strip
  using contains_strip [of "''<script''" "lower d"] contains_strip_back [of "''<script''" "lower d"]
    contains_strip [of "''</script>''" "lower d"] contains_strip_back [of "''</script>''" "lower d"]
  by (auto simp: lt_not_space)

lemma blank_has_no_script:
  assumes "strip d = []"
  shows "\<not> contains ''<script'' (lower d)" "\<not> contains ''</script>'' (lower d)"
  using script_in_strip [of d, symmetric] assms by (simp_all add: lower_def)

lemma title_field_rule: "accepted (title_field (Some t)) = title_rule t"
  by (auto simp: accepted_def title_field_def validate_title_eq title_rule_def)

lemma title_field_patch_rule:
  "accepted (title_field_patch (Some t)) = map_option Some (title_rule t)"
  by (auto simp: accepted_def title_field_patch_def validate_title_patch_eq validate_title_eq
      title_rule_def)

lemma description_field_rule: "accepted (description_field (Some d)) = description_rule d"
  by (auto simp: accepted_def description_field_def validate_description_def Let_def
      script_in_strip description_rule_def dest: blank_has_no_script)

lemma accepted_simps [simp]:
  "accepted (Inl e) = None" "accepted (Inr v) = Some v"
  by (simp_all add: accepted_def)

lemma accepted_None: "accepted r = None \<longleftrightarrow> isl r"
  by (cases r) simp_all

lemma TodoCreate_validate_rule:
  "accepted (TodoCreate_validate body) =
     (case (accepted (title_field (body_title body)),
            accepted (description_field (body_description body))) of
        (Some t, Some d) \<Rightarrow> Some \<lparr>create_title = t, create_description = d\<rparr>
      | _ \<Rightarrow> None)"
  by (simp add: TodoCreate_validate_def split: sum.splits)

lemma TodoPut_validate_rule:
  "accepted (TodoPut_validate body) =
     (case (accepted (title_field (body_title body)),
            accepted (description_field (body_description body))) of
        (Some t, Some d) \<Rightarrow>
          Some \<lparr>put_title = t, put_description = d,
                put_completed = (case body_completed body of None \<Rightarrow> False | Some c \<Rightarrow> c)\<rparr>
      | _ \<Rightarrow> None)"
  by (simp add: TodoPut_validate_def split: sum.splits)

lemma TodoPatch_validate_rule:
  "accepted (TodoPatch_validate body) =
     (case (accepted (title_field_patch (body_title body)),
            accepted (description_field (body_description body))) of
        (Some t, Some d) \<Rightarrow>
          Some \<lparr>patch_title = t, patch_description = d,
                patch_completed = body_completed body\<rparr>
      | _ \<Rightarrow> None)"
  by (simp add: TodoPatch_validate_def split: sum.splits)

text \<open>
  C7. The validators of the three schemas follow the validation rules. A title is
  refused when it is empty or all whitespace after trimming, when it contains \<open><\<close> or
  \<open>>\<close>, or when it has more than 200 characters; otherwise it is accepted and stored
  trimmed. A description is refused when it contains \<open><script\<close> or \<open></script>\<close> in any
  mix of cases, or when it has more than 1000 characters; otherwise it is accepted,
  trimmed, and becomes None when nothing is left. A schema accepts a body exactly when
  each of its fields is accepted, and holds the accepted values; \<open>TodoCreate\<close> and
  \<open>TodoPut\<close> need a title, \<open>TodoPatch\<close> takes a missing title and a missing description
  as None.
\<close>

theorem validators_follow_rules:
  "accepted (title_field (Some t)) = title_rule t
   \<and> accepted (title_field_patch (Some t)) = map_option Some (title_rule t)
   \<and> accepted (description_field (Some d)) = description_rule d
   \<and> accepted (title_field None) = None
   \<and> accepted (title_field_patch None) = Some None
   \<and> accepted (description_field None) = Some None
   \<and> accepted (TodoCreate_validate body) =
       (case (accepted (title_field (body_title body)),
              accepted (description_field (body_description body))) of
          (Some t', Some d') \<Rightarrow> Some \<lparr>create_title = t', create_description = d'\<rparr>
        | _ \<Rightarrow> None)
   \<and> accepted (TodoPut_validate body) =
       (case (accepted (title_field (body_title body)),
              accepted (description_field (body_description body))) of
          (Some t', Some d') \<Rightarrow>
            Some \<lparr>put_title = t', put_description = d',
                  put_completed = (case body_completed body of None \<Rightarrow> False | Some c \<Rightarrow> c)\<rparr>
        | _ \<Rightarrow> None)
   \<and> accepted (TodoPatch_validate body) =
       (case (accepted (title_field_patch (body_title body)),
              accepted (description_field (body_description body))) of
          (Some t', Some d') \<Rightarrow>
            Some \<lparr>patch_title = t', patch_description = d',
                  patch_completed = body_completed body\<rparr>
        | _ \<Rightarrow> None)"
proof -
  have "accepted (title_field None) = None"
    by (simp add: title_field_def)
  moreover have "accepted (title_field_patch None) = Some None"
    by (simp add: title_field_patch_def validate_title_patch_def)
  moreover have "accepted (description_field None) = Some None"
    by (simp add: description_field_def validate_description_def)
  ultimately show ?thesis
    using title_field_rule [of t] title_field_patch_rule [of t] description_field_rule [of d]
      TodoCreate_validate_rule [of body] TodoPut_validate_rule [of body]
      TodoPatch_validate_rule [of body]
    by (intro conjI)
qed

theorem validators_follow_rules_witness:
  "accepted (title_field (Some ''  <b>x</b>  '')) = None
   \<and> accepted (title_field (Some ''   '')) = None
   \<and> accepted (title_field (Some ''  buy milk '')) = Some ''buy milk''
   \<and> accepted (description_field (Some ''<script>alert(1)</script>'')) = None
   \<and> accepted (description_field (Some '' <SCRIPT src=x> '')) = None
   \<and> accepted (description_field (Some ''   '')) = Some None
   \<and> accepted (description_field (Some '' 2 litres '')) = Some (Some ''2 litres'')"
proof -
  have "title_rule ''  <b>x</b>  '' = None" "title_rule ''   '' = None"
    by code_simp+
  moreover have "title_rule ''  buy milk '' = Some ''buy milk''"
    by code_simp
  moreover have "description_rule ''<script>alert(1)</script>'' = None"
    "description_rule '' <SCRIPT src=x> '' = None"
    by code_simp+
  moreover have "description_rule ''   '' = Some None"
    "description_rule '' 2 litres '' = Some (Some ''2 litres'')"
    by code_simp+
  ultimately show ?thesis
    using validators_follow_rules [of "''  <b>x</b>  ''" "''<script>alert(1)</script>''"]
      validators_follow_rules [of "''   ''" "'' <SCRIPT src=x> ''"]
      validators_follow_rules [of "''  buy milk ''" "''   ''"]
      validators_follow_rules [of "''  buy milk ''" "'' 2 litres ''"]
    by simp
qed

section \<open>PATCH and the description\<close>

lemma description_field_whitespace:
  "list_all whitespace d \<Longrightarrow>
   description_field (Some d) = (if length d > 1000 then Inl String_too_long else Inr None)"
  by (simp add: description_field_def validate_description_def strip_empty_iff)

lemma TodoPatch_validate_description:
  assumes "TodoPatch_validate body = Inr p"
  shows "description_field (body_description body) = Inr (patch_description p)"
  using assms
  by (auto simp: TodoPatch_validate_def split: sum.splits)

lemma route_update_todo_todos:
  "todos (snd (route_update_todo conn tid body uid)) =
     (case TodoPatch_validate body of
        Inl errs \<Rightarrow> todos conn
      | Inr p \<Rightarrow> todos (snd (update_todo conn tid p uid)))"
  by (simp add: route_update_todo_def split: sum.splits)

lemma description_untouched:
  "patch_description p = None \<Longrightarrow>
   map description (todos (snd (update_todo conn tid p uid))) = map description (todos conn)"
  by (simp add: update_todo_todos assign_update_fields)

text \<open>
  C10. A PATCH body whose description is made of whitespace only validates, if it
  validates at all, to a patch whose description is None, and the PATCH request leaves the
  description of every stored row as it was. And whatever the body of a PATCH request is,
  a todo of the caller that had a description still has one afterwards: no PATCH input
  resets a description to absent.
\<close>

theorem patch_never_clears_description:
  "(body_description body = Some d \<and> list_all whitespace d \<longrightarrow>
      (\<forall>p. TodoPatch_validate body = Inr p \<longrightarrow> patch_description p = None)
      \<and> map description (todos (snd (route_update_todo conn tid body uid)))
          = map description (todos conn))
   \<and> (find (id_and_user tid uid) (todos conn) = Some existing \<and> description existing \<noteq> None \<longrightarrow>
      (\<exists>r. find (id_and_user tid uid) (todos (snd (route_update_todo conn tid body uid)))
              = Some r
           \<and> description r \<noteq> None))"
proof (intro conjI impI)
  assume a: "body_description body = Some d \<and> list_all whitespace d"
  show none: "\<forall>p. TodoPatch_validate body = Inr p \<longrightarrow> patch_description p = None"
  proof (intro allI impI)
    fix p assume "TodoPatch_validate body = Inr p"
    from TodoPatch_validate_description [OF this] a show "patch_description p = None"
      by (simp add: description_field_whitespace split: if_splits)
  qed
  show "map description (todos (snd (route_update_todo conn tid body uid)))
      = map description (todos conn)"
  proof (cases "TodoPatch_validate body")
    case (Inl errs)
    then show ?thesis by (simp add: route_update_todo_todos)
  next
    case (Inr p)
    with none have "patch_description p = None" by simp
    from description_untouched [OF this] Inr show ?thesis
      by (simp add: route_update_todo_todos)
  qed
next
  assume b: "find (id_and_user tid uid) (todos conn) = Some existing
      \<and> description existing \<noteq> None"
  show "\<exists>r. find (id_and_user tid uid) (todos (snd (route_update_todo conn tid body uid)))
              = Some r
           \<and> description r \<noteq> None"
  proof (cases "TodoPatch_validate body")
    case (Inl errs)
    with b show ?thesis by (simp add: route_update_todo_todos)
  next
    case (Inr p)
    from b have "find (id_and_user tid uid) (todos (snd (update_todo conn tid p uid)))
        = Some (assign (update_fields p) existing)"
      by (simp add: find_after_update)
    moreover from b have "description (assign (update_fields p) existing) \<noteq> None"
      by (simp add: assign_update_fields split: option.splits)
    ultimately show ?thesis
      using Inr by (simp add: route_update_todo_todos)
  qed
qed

theorem patch_never_clears_description_witness:
  "map description (todos (snd (route_update_todo two_users_store 3
      \<lparr>body_title = None, body_description = Some ''   '', body_completed = Some True\<rparr> 1)))
     = [Some ''2 litres'', None]
   \<and> (\<exists>r. find (id_and_user 3 1) (todos (snd (route_update_todo two_users_store 3
              \<lparr>body_title = None, body_description = Some ''   '',
               body_completed = Some True\<rparr> 1)))
             = Some r
          \<and> description r \<noteq> None)"
proof -
  let ?body = "\<lparr>body_title = None, body_description = Some ''   '', body_completed = Some True\<rparr>"
  have blank: "body_description ?body = Some ''   '' \<and> list_all whitespace ''   ''"
    by (simp add: whitespace_def)
  have owned: "find (id_and_user 3 1) (todos two_users_store) = Some milk
      \<and> description milk \<noteq> None"
    by (simp add: two_users_store_def milk_def id_and_user_def)
  have before: "map description (todos two_users_store) = [Some ''2 litres'', None]"
    by (simp add: two_users_store_def milk_def rent_def)
  from patch_never_clears_description [of ?body "''   ''" two_users_store 3 1 milk] blank owned
  have "map description (todos (snd (route_update_todo two_users_store 3 ?body 1)))
        = map description (todos two_users_store)"
    and "\<exists>r. find (id_and_user 3 1) (todos (snd (route_update_todo two_users_store 3 ?body 1)))
             = Some r
          \<and> description r \<noteq> None"
    by blast+
  with before show ?thesis
    by simp
qed

section \<open>Listing\<close>






section \<open>Authentication\<close>




section \<open>Registration\<close>

lemma find_Some_first:
  assumes "\<exists>x\<in>set xs. P x"
  shows "\<exists>y. find P xs = Some y \<and> P y \<and> y \<in> set xs"
  using assms by (induction xs) auto

text \<open>
  C4, as stated, fails. Both the requested username and the requested email are taken,
  by two different accounts; the lookup returns the row of the account with the email
  first, and the error names the email, not the username.
\<close>

theorem username_precedence_counterexample:
  "''alice'' \<in> set (map username (users accounts_store))
   \<and> ''bob@example.org'' \<in> set (map email (users accounts_store))
   \<and> fst (create_user plain_context 1000 accounts_store
         \<lparr>new_username = ''alice'', new_email = ''bob@example.org'', new_password = ''pw''\<rparr>)
       = Inl (UserAlreadyExistsError ''email'' ''bob@example.org'')"
  by (simp add: create_user_def fetchrow_users_def accounts_store_def alice_def bob_def)

text \<open>
  C4, amended. When the requested username or email is taken, \<open>create_user\<close> raises
  \<open>UserAlreadyExistsError\<close> after the one SELECT, and the field it names did collide: the
  error is decided by the first row the lookup returns, and names the username when that
  row has the requested username and the email otherwise. In particular the username is
  named whenever every account with the requested email also has the requested username,
  as when one account collides on both.
\<close>

theorem create_user_reports_first_collision:
  assumes "\<exists>r\<in>set (users conn). username r = new_username user \<or> email r = new_email user"
  shows "\<exists>found.
      find (\<lambda>r. username r = new_username user \<or> email r = new_email user) (users conn)
        = Some found
      \<and> create_user ctx now conn user =
          (Inl (if username found = new_username user
                then UserAlreadyExistsError ''username'' (new_username user)
                else UserAlreadyExistsError ''email'' (new_email user)),
           ran SELECT conn)
      \<and> (username found = new_username user \<or> email found = new_email user)
      \<and> ((\<forall>r\<in>set (users conn). email r = new_email user \<longrightarrow> username r = new_username user)
           \<longrightarrow> username found = new_username user)"
proof -
  from find_Some_first [OF assms] obtain found where
    first: "find (\<lambda>r. username r = new_username user \<or> email r = new_email user) (users conn)
        = Some found"
    and collides: "username found = new_username user \<or> email found = new_email user"
    and stored: "found \<in> set (users conn)"
    by blast
  have raised: "create_user ctx now conn user =
      (Inl (if username found = new_username user
            then UserAlreadyExistsError ''username'' (new_username user)
            else UserAlreadyExistsError ''email'' (new_email user)),
       ran SELECT conn)"
    by (simp add: create_user_def fetchrow_users_def first)
  have same_user: "(\<forall>r\<in>set (users conn). email r = new_email user \<longrightarrow> username r = new_username user)
      \<longrightarrow> username found = new_username user"
    using collides stored by blast
  from first raised collides same_user show ?thesis
    by blast
qed

theorem create_user_reports_first_collision_witness:
  "fst (create_user plain_context 1000 accounts_store
      \<lparr>new_username = ''alice'', new_email = ''alice@example.org'', new_password = ''pw''\<rparr>)
     = Inl (UserAlreadyExistsError ''username'' ''alice'')
   \<and> fst (create_user plain_context 1000 accounts_store
      \<lparr>new_username = ''carol'', new_email = ''bob@example.org'', new_password = ''pw''\<rparr>)
     = Inl (UserAlreadyExistsError ''email'' ''bob@example.org'')"
proof -
  let ?both = "\<lparr>new_username = ''alice'', new_email = ''alice@example.org'',
      new_password = ''pw''\<rparr>"
  let ?mail = "\<lparr>new_username = ''carol'', new_email = ''bob@example.org'',
      new_password = ''pw''\<rparr>"
  have taken: "\<exists>r\<in>set (users accounts_store).
      username r = new_username ?both \<or> email r = new_email ?both"
    "\<exists>r\<in>set (users accounts_store).
      username r = new_username ?mail \<or> email r = new_email ?mail"
    by (simp_all add: accounts_store_def alice_def bob_def)
  have first: "find (\<lambda>r. username r = new_username ?both \<or> email r = new_email ?both)
      (users accounts_store) = Some alice"
    "find (\<lambda>r. username r = new_username ?mail \<or> email r = new_email ?mail)
      (users accounts_store) = Some bob"
    by (simp_all add: accounts_store_def alice_def bob_def)
  have names: "username alice = ''alice''" "username bob = ''bob''"
    by (simp_all add: alice_def bob_def)
  from create_user_reports_first_collision [OF taken(1), of plain_context 1000] first(1) names
  have a: "fst (create_user plain_context 1000 accounts_store ?both)
      = Inl (UserAlreadyExistsError ''username'' ''alice'')"
    by auto
  from create_user_reports_first_collision [OF taken(2), of plain_context 1000] first(2) names
  have b: "fst (create_user plain_context 1000 accounts_store ?mail)
      = Inl (UserAlreadyExistsError ''email'' ''bob@example.org'')"
    by auto
  from a b show ?thesis by simp
qed

section \<open>Tokens\<close>

lemma token_expiry_given:
  assumes "delta \<noteq> 0"
  shows "create_access_token utcnow data (Some delta)
    = jwt_encode (data(''exp'' \<mapsto> NumericDate (utcnow + delta))) SECRET_KEY"
  using assms by (simp add: create_access_token_def)

lemma token_expiry_default:
  "create_access_token utcnow data None
    = jwt_encode (data(''exp'' \<mapsto> NumericDate (utcnow + 15 * 60))) SECRET_KEY"
  by (simp add: create_access_token_def timedelta_minutes_def)

lemma login_token:
  assumes "authenticate_user ctx conn name password = (Some user, conn')"
  shows "login_user ctx utcnow conn \<lparr>login_username = name, login_password = password\<rparr>
    = (Inr \<lparr>access_token =
              jwt_encode [''sub'' \<mapsto> Str (resp_username user),
                          ''exp'' \<mapsto> NumericDate (utcnow + 30 * 60)] SECRET_KEY,
            token_type = ''bearer''\<rparr>, conn')"
  using assms
  by (simp add: login_user_def create_access_token_def timedelta_minutes_def
      ACCESS_TOKEN_EXPIRE_MINUTES_def)

lemma verify_token_expired:
  assumes "expiry < later"
  shows "verify_token later (jwt_encode (data(''exp'' \<mapsto> NumericDate expiry)) SECRET_KEY)
    = Inl credentials_exception"
  using assms by (simp add: verify_token_def jwt_decode_def jwt_encode_def)

lemma verify_token_in_time:
  assumes "later \<le> expiry"
  shows "verify_token later
      (jwt_encode [''sub'' \<mapsto> Str name, ''exp'' \<mapsto> NumericDate expiry] SECRET_KEY)
    = Inr [''sub'' \<mapsto> Str name, ''exp'' \<mapsto> NumericDate expiry]"
  using assms by (simp add: verify_token_def jwt_decode_def jwt_encode_def)

text \<open>
  C6 at a ttl of zero. \<open>create_access_token\<close> with \<open>timedelta(0)\<close> takes the branch for a
  missing ttl: the expiry is \<open>utcnow\<close> plus 15 minutes, not \<open>utcnow\<close> plus the ttl, the
  token is the one issued with no ttl at all, and it still verifies a second after it
  was issued. (For a ttl other than zero the expiry is \<open>utcnow\<close> plus the ttl, with no ttl
  it is \<open>utcnow\<close> plus 15 minutes, login passes 30 minutes, and a token is refused once
  its expiry has passed: the lemmas above.)
\<close>

theorem zero_ttl_lives_fifteen_minutes:
  "create_access_token utcnow data (Some 0)
     = jwt_encode (data(''exp'' \<mapsto> NumericDate (utcnow + 900))) SECRET_KEY
   \<and> create_access_token utcnow data (Some 0) = create_access_token utcnow data None
   \<and> verify_token (utcnow + 1) (create_access_token utcnow [''sub'' \<mapsto> Str name] (Some 0))
     = Inr [''sub'' \<mapsto> Str name, ''exp'' \<mapsto> NumericDate (utcnow + 900)]"
proof -
  have issued: "create_access_token utcnow data (Some 0)
      = jwt_encode (data(''exp'' \<mapsto> NumericDate (utcnow + 900))) SECRET_KEY" for data
    by (simp add: create_access_token_def timedelta_minutes_def)
  have same: "create_access_token utcnow data (Some 0) = create_access_token utcnow data None"
    by (simp add: create_access_token_def)
  have "verify_token (utcnow + 1)
      (jwt_encode [''sub'' \<mapsto> Str name, ''exp'' \<mapsto> NumericDate (utcnow + 900)] SECRET_KEY)
    = Inr [''sub'' \<mapsto> Str name, ''exp'' \<mapsto> NumericDate (utcnow + 900)]"
    by (rule verify_token_in_time) simp
  with issued [of data] issued [of "[''sub'' \<mapsto> Str name]"] same show ?thesis
    by simp
qed

section \<open>Statistics\<close>













text \<open>One completed todo of three: the rate is the float \<open>33.33\<close>.\<close>

lemma rate_example:
  "float_round (float_mul (binary64 (1 / 3)) 100) 2 = 2345390243441541 / 70368744177664"
  by code_simp

end
